theory Spec2Isabelle
  imports Main "HOL-Library.Sublist"
begin

section \<open>Python 2 strings\<close>

text \<open>
  The source is Python 2. A text value there is either a byte string (\<open>str\<close>) or a
  sequence of code points (\<open>unicode\<close>); \<open>extract_resources\<close> produces the former with
  \<open>str(resource)\<close>, a model's \<open>get_absolute_url()\<close> or a request's path may give the
  latter. Combining the two decodes the byte string as ASCII, which raises
  \<open>UnicodeDecodeError\<close> on a byte above 127.
\<close>

datatype pystr = Str string | Unicode "nat list"

text \<open>
  \<open>StaticGeneratorException\<close> is raised with one of six messages; the constructor keeps
  the values the message is formatted from:
  \<^item> \<open>MultipleQueryStrings path\<close>: 'Path %s has multiple query string values'
  \<^item> \<open>PageRaised path err\<close>: 'The requested page("%s") raised an exception. Static Generation failed. Error: %s'
  \<^item> \<open>PageReturnedCode path code\<close>: 'The requested page("%s") returned http code %d. Static Generation failed.'
  \<^item> \<open>CouldNotCreateDirectory directory\<close>: 'Could not create the directory: %s'
  \<^item> \<open>CouldNotCreateFile filename\<close>: 'Could not create the file: %s'
  \<^item> \<open>CouldNotDeleteFile filename\<close>: 'Could not delete file: %s' (the filename may be \<open>None\<close>)
\<close>

datatype sg_msg =
    MultipleQueryStrings pystr
  | PageRaised pystr string
  | PageReturnedCode pystr int
  | CouldNotCreateDirectory string
  | CouldNotCreateFile string
  | CouldNotDeleteFile "string option"

datatype exn = StaticGeneratorException sg_msg | UnicodeDecodeError | TypeError

definition bind_exn :: "exn + 'a \<Rightarrow> ('a \<Rightarrow> exn + 'b) \<Rightarrow> exn + 'b" where
  "bind_exn m f = (case m of Inl e \<Rightarrow> Inl e | Inr x \<Rightarrow> f x)"

definition is_ascii :: "string \<Rightarrow> bool" where
  "is_ascii s = list_all (\<lambda>c. (of_char c :: nat) < 128) s"

definition decode_ascii :: "string \<Rightarrow> exn + nat list" where
  \<comment> \<open>the implicit \<open>s.decode('ascii')\<close> of a byte string that meets a unicode value\<close>
  "decode_ascii s = (if is_ascii s then Inr (map of_char s) else Inl UnicodeDecodeError)"

fun py_add :: "pystr \<Rightarrow> pystr \<Rightarrow> exn + pystr" where
  \<comment> \<open>\<open>a + b\<close>\<close>
  "py_add (Str a) (Str b) = Inr (Str (a @ b))"
| "py_add (Unicode a) (Unicode b) = Inr (Unicode (a @ b))"
| "py_add (Str a) (Unicode b) = bind_exn (decode_ascii a) (\<lambda>a'. Inr (Unicode (a' @ b)))"
| "py_add (Unicode a) (Str b) = bind_exn (decode_ascii b) (\<lambda>b'. Inr (Unicode (a @ b')))"

definition utf8_char :: "nat \<Rightarrow> string" where
  \<comment> \<open>the UTF-8 bytes of one code point\<close>
  "utf8_char c =
     (if c < 128 then [char_of c]
      else if c < 2048 then [char_of (192 + c div 64), char_of (128 + c mod 64)]
      else if c < 65536 then
        [char_of (224 + c div 4096), char_of (128 + c div 64 mod 64), char_of (128 + c mod 64)]
      else
        [char_of (240 + c div 262144 mod 8), char_of (128 + c div 4096 mod 64),
         char_of (128 + c div 64 mod 64), char_of (128 + c mod 64)])"

definition utf8 :: "nat list \<Rightarrow> string" where
  "utf8 u = concat (map utf8_char u)"

fun encode_utf8 :: "pystr \<Rightarrow> exn + string" where
  \<comment> \<open>\<open>s.encode('utf-8')\<close>: a byte string is first decoded as ASCII\<close>
  "encode_utf8 (Str s) = bind_exn (decode_ascii s) (\<lambda>u. Inr (utf8 u))"
| "encode_utf8 (Unicode u) = Inr (utf8 u)"

fun py_endswith_slash :: "pystr \<Rightarrow> bool" where
  \<comment> \<open>\<open>s.endswith('/')\<close>\<close>
  "py_endswith_slash (Str s) = (s \<noteq> [] \<and> last s = CHR ''/'')"
| "py_endswith_slash (Unicode u) = (u \<noteq> [] \<and> last u = 47)"

fun py_startswith_slash :: "pystr \<Rightarrow> bool" where
  \<comment> \<open>\<open>s.startswith('/')\<close>\<close>
  "py_startswith_slash (Str s) = (s \<noteq> [] \<and> hd s = CHR ''/'')"
| "py_startswith_slash (Unicode u) = (u \<noteq> [] \<and> hd u = 47)"

fun py_lstrip_slash :: "pystr \<Rightarrow> pystr" where
  \<comment> \<open>\<open>s.lstrip('/')\<close>: every leading slash goes\<close>
  "py_lstrip_slash (Str s) = Str (dropWhile (\<lambda>c. c = CHR ''/'') s)"
| "py_lstrip_slash (Unicode u) = Unicode (dropWhile (\<lambda>c. c = 47) u)"

fun py_empty :: "pystr \<Rightarrow> bool" where
  \<comment> \<open>\<open>s == ''\<close>, and \<open>not s\<close>\<close>
  "py_empty (Str s) = (s = [])"
| "py_empty (Unicode u) = (u = [])"

fun split_on :: "'a \<Rightarrow> 'a list \<Rightarrow> 'a list list" where
  \<comment> \<open>\<open>xs.split(c)\<close> for a separator of one character\<close>
  "split_on c [] = [[]]"
| "split_on c (x # xs) =
     (if x = c then [] # split_on c xs
      else (let r = split_on c xs in (x # hd r) # tl r))"

fun py_split_qmark :: "pystr \<Rightarrow> pystr list" where
  \<comment> \<open>\<open>s.split('?')\<close>\<close>
  "py_split_qmark (Str s) = map Str (split_on CHR ''?'' s)"
| "py_split_qmark (Unicode u) = map Unicode (split_on 63 u)"

section \<open>os.path\<close>

definition os_path_join :: "pystr \<Rightarrow> pystr \<Rightarrow> exn + pystr" where
  \<comment> \<open>\<open>posixpath.join(a, b)\<close>\<close>
  "os_path_join a b =
     (if py_startswith_slash b then Inr b
      else if py_empty a \<or> py_endswith_slash a then py_add a b
      else bind_exn (py_add (Str ''/'') b) (\<lambda>sb. py_add a sb))"

definition os_path_dirname :: "string \<Rightarrow> string" where
  \<comment> \<open>\<open>posixpath.dirname(p)\<close>: the part up to the last slash, without trailing
      slashes unless it consists of slashes only\<close>
  "os_path_dirname p =
     (let head = rev (dropWhile (\<lambda>c. c \<noteq> CHR ''/'') (rev p))
      in if head \<noteq> [] \<and> head \<noteq> replicate (length head) CHR ''/''
         then rev (dropWhile (\<lambda>c. c = CHR ''/'') (rev head))
         else head)"

section \<open>The path mapper\<close>

definition get_query_string_from_path :: "pystr \<Rightarrow> exn + (pystr \<times> pystr option)" where
  "get_query_string_from_path path =
     (let parts = py_split_qmark path
      in if length parts = 1 then Inr (parts ! 0, None)
         else if length parts > 2 then
           Inl (StaticGeneratorException (MultipleQueryStrings path))
         else Inr (parts ! 0, Some (parts ! 1)))"

definition composed_filename :: "pystr \<Rightarrow> pystr \<Rightarrow> pystr option \<Rightarrow> bool \<Rightarrow> exn + string" where
  \<comment> \<open>the first part of \<open>get_filename_from_path\<close>, up to the assignment of \<open>filename\<close>;
      \<open>web_root\<close> is the first argument\<close>
  "composed_filename web_root path query_string is_ajax =
     bind_exn (if py_endswith_slash path then py_add path (Str ''index.html%3F'')
               else Inr path) (\<lambda>path1.
     bind_exn (case query_string of
                 None \<Rightarrow> Inr path1
               | Some q \<Rightarrow> if py_empty q then Inr path1 else py_add path1 q) (\<lambda>path2.
     bind_exn (if is_ajax then py_add path2 (Str '',ajax'') else Inr path2) (\<lambda>path3.
     bind_exn (os_path_join web_root (py_lstrip_slash path3)) encode_utf8)))"

definition get_filename_from_path ::
  "pystr \<Rightarrow> pystr \<Rightarrow> pystr option \<Rightarrow> bool \<Rightarrow> exn + (string \<times> string) option" where
  \<comment> \<open>the result is (filename, directory), or \<open>None\<close> for the source's \<open>(None, None)\<close>\<close>
  "get_filename_from_path web_root path query_string is_ajax =
     bind_exn (composed_filename web_root path query_string is_ajax) (\<lambda>filename.
       if length filename > 255 then Inr None
       else Inr (Some (filename, os_path_dirname filename)))"

section \<open>The operating system and the request handler\<close>

text \<open>
  The file system and the request handler are outside the program. They are a parameter:
  a record of operations on a state \<open>'w\<close> of which nothing is assumed. An operation that
  can raise returns \<open>False\<close> (or \<open>None\<close>) when it does; \<open>os.path.exists\<close> of a string
  answers, and \<open>shutil.rmtree(d, True)\<close> of a string returns, whatever happens.
  \<open>sys_handler\<close> stands for the request built from the path and passed to
  \<open>DummyHandler\<close>: \<open>Inl\<close> is the text of the exception it raised, \<open>Inr\<close> the status
  code and the content of the response.
\<close>

record 'w os =
  sys_exists :: "string \<Rightarrow> 'w \<Rightarrow> bool"
  sys_makedirs :: "string \<Rightarrow> 'w \<Rightarrow> bool \<times> 'w"
  sys_mkstemp :: "string \<Rightarrow> 'w \<Rightarrow> (nat \<times> string) option \<times> 'w"
  sys_write :: "nat \<Rightarrow> string \<Rightarrow> 'w \<Rightarrow> bool \<times> 'w"
  sys_close :: "nat \<Rightarrow> 'w \<Rightarrow> bool \<times> 'w"
  sys_chmod :: "string \<Rightarrow> nat \<Rightarrow> 'w \<Rightarrow> bool \<times> 'w"
  sys_rename :: "string \<Rightarrow> string \<Rightarrow> 'w \<Rightarrow> bool \<times> 'w"
  sys_remove :: "string \<Rightarrow> 'w \<Rightarrow> bool \<times> 'w"
  sys_rmdir :: "string \<Rightarrow> 'w \<Rightarrow> bool \<times> 'w"
  sys_rmtree :: "string \<Rightarrow> 'w \<Rightarrow> 'w"
  sys_handler :: "pystr \<Rightarrow> 'w \<Rightarrow> (string + int \<times> string) \<times> 'w"

text \<open>
  Every call the program makes is written down, in order, with its arguments (and for
  \<open>mkstemp\<close> the descriptor and the name it returned).
\<close>

datatype call =
    Exists string
  | Makedirs string
  | Mkstemp string "(nat \<times> string) option"
  | Write nat string
  | Close nat
  | Chmod string nat
  | Rename string string
  | Remove string
  | Rmdir string
  | Rmtree string
  | Handler pystr

record 'w world =
  sys :: 'w
  calls :: "call list"

definition os_path_exists :: "'w os \<Rightarrow> string option \<Rightarrow> 'w world \<Rightarrow> (exn + bool) \<times> 'w world" where
  \<comment> \<open>\<open>os.path.exists(p)\<close>: \<open>os.stat(None)\<close> raises \<open>TypeError\<close>, which \<open>exists\<close> does
      not catch\<close>
  "os_path_exists os p w =
     (case p of
        None \<Rightarrow> (Inl TypeError, w)
      | Some f \<Rightarrow> (Inr (sys_exists os f (sys w)), w\<lparr>calls := calls w @ [Exists f]\<rparr>))"

definition os_makedirs :: "'w os \<Rightarrow> string \<Rightarrow> 'w world \<Rightarrow> bool \<times> 'w world" where
  "os_makedirs os d w =
     (let (ok, s) = sys_makedirs os d (sys w) in (ok, \<lparr>sys = s, calls = calls w @ [Makedirs d]\<rparr>))"

definition tempfile_mkstemp :: "'w os \<Rightarrow> string \<Rightarrow> 'w world \<Rightarrow> (nat \<times> string) option \<times> 'w world" where
  "tempfile_mkstemp os d w =
     (let (r, s) = sys_mkstemp os d (sys w) in (r, \<lparr>sys = s, calls = calls w @ [Mkstemp d r]\<rparr>))"

definition os_write :: "'w os \<Rightarrow> nat \<Rightarrow> string \<Rightarrow> 'w world \<Rightarrow> bool \<times> 'w world" where
  "os_write os f content w =
     (let (ok, s) = sys_write os f content (sys w)
      in (ok, \<lparr>sys = s, calls = calls w @ [Write f content]\<rparr>))"

definition os_close :: "'w os \<Rightarrow> nat \<Rightarrow> 'w world \<Rightarrow> bool \<times> 'w world" where
  "os_close os f w =
     (let (ok, s) = sys_close os f (sys w) in (ok, \<lparr>sys = s, calls = calls w @ [Close f]\<rparr>))"

definition os_chmod :: "'w os \<Rightarrow> string \<Rightarrow> nat \<Rightarrow> 'w world \<Rightarrow> bool \<times> 'w world" where
  "os_chmod os p m w =
     (let (ok, s) = sys_chmod os p m (sys w) in (ok, \<lparr>sys = s, calls = calls w @ [Chmod p m]\<rparr>))"

definition os_rename :: "'w os \<Rightarrow> string \<Rightarrow> string \<Rightarrow> 'w world \<Rightarrow> bool \<times> 'w world" where
  "os_rename os a b w =
     (let (ok, s) = sys_rename os a b (sys w) in (ok, \<lparr>sys = s, calls = calls w @ [Rename a b]\<rparr>))"

definition os_remove :: "'w os \<Rightarrow> string \<Rightarrow> 'w world \<Rightarrow> bool \<times> 'w world" where
  "os_remove os p w =
     (let (ok, s) = sys_remove os p (sys w) in (ok, \<lparr>sys = s, calls = calls w @ [Remove p]\<rparr>))"

definition os_rmdir :: "'w os \<Rightarrow> string \<Rightarrow> 'w world \<Rightarrow> bool \<times> 'w world" where
  "os_rmdir os d w =
     (let (ok, s) = sys_rmdir os d (sys w) in (ok, \<lparr>sys = s, calls = calls w @ [Rmdir d]\<rparr>))"

definition shutil_rmtree :: "'w os \<Rightarrow> string \<Rightarrow> 'w world \<Rightarrow> 'w world" where
  "shutil_rmtree os d w = \<lparr>sys = sys_rmtree os d (sys w), calls = calls w @ [Rmtree d]\<rparr>"

definition call_handler :: "'w os \<Rightarrow> pystr \<Rightarrow> 'w world \<Rightarrow> (string + int \<times> string) \<times> 'w world" where
  "call_handler os path w =
     (let (r, s) = sys_handler os path (sys w) in (r, \<lparr>sys = s, calls = calls w @ [Handler path]\<rparr>))"

section \<open>Publishing and deleting\<close>

definition S_IRUSR :: nat where "S_IRUSR = 256"
definition S_IWUSR :: nat where "S_IWUSR = 128"
definition S_IREAD :: nat where "S_IREAD = 256"
definition S_IWRITE :: nat where "S_IWRITE = 128"
definition S_IRGRP :: nat where "S_IRGRP = 32"
definition S_IROTH :: nat where "S_IROTH = 4"

definition file_mode :: nat where
  \<comment> \<open>the second argument of \<open>os.chmod\<close>\<close>
  "file_mode = or S_IREAD (or S_IWRITE (or S_IWUSR (or S_IRUSR (or S_IWUSR (or S_IRGRP S_IROTH)))))"

definition get_content_from_path :: "'w os \<Rightarrow> pystr \<Rightarrow> 'w world \<Rightarrow> (exn + string) \<times> 'w world" where
  "get_content_from_path os path w =
     (case call_handler os path w of
        (Inl err, w1) \<Rightarrow> (Inl (StaticGeneratorException (PageRaised path err)), w1)
      | (Inr (status_code, content), w1) \<Rightarrow>
          if status_code \<noteq> 200 then
            (Inl (StaticGeneratorException (PageReturnedCode path status_code)), w1)
          else (Inr content, w1))"

definition write_and_rename ::
  "'w os \<Rightarrow> string \<Rightarrow> string \<Rightarrow> string \<Rightarrow> 'w world \<Rightarrow> bool \<times> 'w world" where
  \<comment> \<open>the body of the last \<open>try\<close> of \<open>publish_from_path\<close>; \<open>False\<close> when a call raised\<close>
  "write_and_rename os directory filename content w =
     (case tempfile_mkstemp os directory w of
        (None, w1) \<Rightarrow> (False, w1)
      | (Some (f, tmpname), w1) \<Rightarrow>
          (let (ok2, w2) = os_write os f content w1 in
           if \<not> ok2 then (False, w2) else
           let (ok3, w3) = os_close os f w2 in
           if \<not> ok3 then (False, w3) else
           let (ok4, w4) = os_chmod os tmpname file_mode w3 in
           if \<not> ok4 then (False, w4) else
           os_rename os tmpname filename w4))"

definition store_file ::
  "'w os \<Rightarrow> string \<Rightarrow> string \<Rightarrow> string \<Rightarrow> 'w world \<Rightarrow> (exn + unit) \<times> 'w world" where
  \<comment> \<open>\<open>publish_from_path\<close> from \<open>if not os.path.exists(directory)\<close> to its end\<close>
  "store_file os filename directory content w =
     (case os_path_exists os (Some directory) w of
        (Inl e, w1) \<Rightarrow> (Inl e, w1)
      | (Inr found, w1) \<Rightarrow>
          (let (made, w2) = (if \<not> found then os_makedirs os directory w1 else (True, w1)) in
           if \<not> made then
             (Inl (StaticGeneratorException (CouldNotCreateDirectory directory)), w2)
           else
             let (ok, w3) = write_and_rename os directory filename content w2 in
             if \<not> ok then (Inl (StaticGeneratorException (CouldNotCreateFile filename)), w3)
             else (Inr (), w3)))"

definition publish_from_path ::
  "'w os \<Rightarrow> pystr \<Rightarrow> pystr \<Rightarrow> pystr option \<Rightarrow> string option \<Rightarrow> bool \<Rightarrow> 'w world
   \<Rightarrow> (exn + unit) \<times> 'w world" where
  "publish_from_path os web_root path query_string content is_ajax w =
     (let content_path = path in
      case (case query_string of
              None \<Rightarrow> get_query_string_from_path path
            | Some q \<Rightarrow> Inr (path, Some q)) of
        Inl e \<Rightarrow> (Inl e, w)
      | Inr (path', query_string') \<Rightarrow>
          (case get_filename_from_path web_root path' query_string' is_ajax of
             Inl e \<Rightarrow> (Inl e, w)
           | Inr None \<Rightarrow> (Inr (), w)
           | Inr (Some (filename, directory)) \<Rightarrow>
               if filename = [] then (Inr (), w)
               else
                 (case (case content of
                          None \<Rightarrow> get_content_from_path os content_path w
                        | Some c \<Rightarrow> if c = [] then get_content_from_path os content_path w
                                    else (Inr c, w)) of
                    (Inl e, w1) \<Rightarrow> (Inl e, w1)
                  | (Inr content', w1) \<Rightarrow> store_file os filename directory content' w1)))"

definition recursive_delete_from_path ::
  "'w os \<Rightarrow> pystr \<Rightarrow> pystr \<Rightarrow> 'w world \<Rightarrow> (exn + unit) \<times> 'w world" where
  \<comment> \<open>\<open>shutil.rmtree(None, True)\<close> raises \<open>TypeError\<close> from \<open>os.path.islink\<close>, which
      \<open>ignore_errors\<close> does not cover\<close>
  "recursive_delete_from_path os web_root path w =
     (case get_filename_from_path web_root path (Some (Str [])) False of
        Inl e \<Rightarrow> (Inl e, w)
      | Inr None \<Rightarrow> (Inl TypeError, w)
      | Inr (Some (filename, directory)) \<Rightarrow> (Inr (), shutil_rmtree os directory w))"

definition delete_from_path ::
  "'w os \<Rightarrow> pystr \<Rightarrow> pystr \<Rightarrow> bool \<Rightarrow> 'w world \<Rightarrow> (exn + unit) \<times> 'w world" where
  "delete_from_path os web_root path is_ajax w =
     (case get_query_string_from_path path of
        Inl e \<Rightarrow> (Inl e, w)
      | Inr (path', query_string) \<Rightarrow>
          (case get_filename_from_path web_root path' query_string is_ajax of
             Inl e \<Rightarrow> (Inl e, w)
           | Inr location \<Rightarrow>
               (let filename = map_option fst location;
                    directory = map_option snd location;
                    (removed, w2) =
                      (case os_path_exists os filename w of
                         (Inl e, w1) \<Rightarrow> (False, w1)
                       | (Inr False, w1) \<Rightarrow> (True, w1)
                       | (Inr True, w1) \<Rightarrow>
                           (case filename of None \<Rightarrow> (False, w1) | Some f \<Rightarrow> os_remove os f w1))
                in if \<not> removed then
                     (Inl (StaticGeneratorException (CouldNotDeleteFile filename)), w2)
                   else
                     (case directory of
                        None \<Rightarrow> (Inl TypeError, w2)
                      | Some d \<Rightarrow> (Inr (), snd (os_rmdir os d w2))))))"

fun do_all ::
  "(pystr \<Rightarrow> 'w world \<Rightarrow> (exn + 'r) \<times> 'w world) \<Rightarrow> pystr list \<Rightarrow> 'w world
   \<Rightarrow> (exn + 'r list) \<times> 'w world" where
  \<comment> \<open>\<open>[func(path) for path in self.resources]\<close>: an exception leaves the comprehension\<close>
  "do_all func [] w = (Inr [], w)"
| "do_all func (path # rest) w =
     (case func path w of
        (Inl e, w1) \<Rightarrow> (Inl e, w1)
      | (Inr r, w1) \<Rightarrow>
          (case do_all func rest w1 of
             (Inl e, w2) \<Rightarrow> (Inl e, w2)
           | (Inr rs, w2) \<Rightarrow> (Inr (r # rs), w2)))"

definition delete :: "'w os \<Rightarrow> pystr \<Rightarrow> pystr list \<Rightarrow> 'w world \<Rightarrow> (exn + unit list) \<times> 'w world" where
  "delete os web_root resources = do_all (\<lambda>path. delete_from_path os web_root path False) resources"

definition recursive_delete ::
  "'w os \<Rightarrow> pystr \<Rightarrow> pystr list \<Rightarrow> 'w world \<Rightarrow> (exn + unit list) \<times> 'w world" where
  "recursive_delete os web_root resources =
     do_all (\<lambda>path. recursive_delete_from_path os web_root path) resources"

definition publish :: "'w os \<Rightarrow> pystr \<Rightarrow> pystr list \<Rightarrow> 'w world \<Rightarrow> (exn + unit list) \<times> 'w world" where
  "publish os web_root resources =
     do_all (\<lambda>path. publish_from_path os web_root path None None False) resources"

text \<open>
  The three cases of the specification of \<open>splitQueryString\<close>, in its words: the number
  of question marks in the raw path, the part before the first one and the part after it.
\<close>

fun py_count_qmark :: "pystr \<Rightarrow> nat" where
  "py_count_qmark (Str s) = count_list s CHR ''?''"
| "py_count_qmark (Unicode u) = count_list u 63"

fun py_before_qmark :: "pystr \<Rightarrow> pystr" where
  "py_before_qmark (Str s) = Str (takeWhile (\<lambda>c. c \<noteq> CHR ''?'') s)"
| "py_before_qmark (Unicode u) = Unicode (takeWhile (\<lambda>c. c \<noteq> 63) u)"

fun py_after_qmark :: "pystr \<Rightarrow> pystr" where
  "py_after_qmark (Str s) = Str (tl (dropWhile (\<lambda>c. c \<noteq> CHR ''?'') s))"
| "py_after_qmark (Unicode u) = Unicode (tl (dropWhile (\<lambda>c. c \<noteq> 63) u))"


text \<open>
  What the logged calls do to the state of the operating system: the state after a list
  of calls, which gives the states a reader can meet while the program runs.
\<close>

fun apply_call :: "'w os \<Rightarrow> call \<Rightarrow> 'w \<Rightarrow> 'w" where
  "apply_call os (Exists p) s = s"
| "apply_call os (Makedirs d) s = snd (sys_makedirs os d s)"
| "apply_call os (Mkstemp d r) s = snd (sys_mkstemp os d s)"
| "apply_call os (Write f c) s = snd (sys_write os f c s)"
| "apply_call os (Close f) s = snd (sys_close os f s)"
| "apply_call os (Chmod p m) s = snd (sys_chmod os p m s)"
| "apply_call os (Rename a b) s = snd (sys_rename os a b s)"
| "apply_call os (Remove p) s = snd (sys_remove os p s)"
| "apply_call os (Rmdir d) s = snd (sys_rmdir os d s)"
| "apply_call os (Rmtree d) s = sys_rmtree os d s"
| "apply_call os (Handler p) s = snd (sys_handler os p s)"

definition replay :: "'w os \<Rightarrow> call list \<Rightarrow> 'w \<Rightarrow> 'w" where
  "replay os cs s = fold (apply_call os) cs s"





section \<open>A small file system\<close>

text \<open>
  One operating system to run the program on: files with their content, directories known
  by their full name, and open descriptors. \<open>makedirs\<close> creates the missing parents
  and \<open>mkstemp\<close> takes a name longer than every file name in use. The handler is a
  table from paths to responses.
\<close>

record fsys =
  files :: "(string \<times> string) list"
  dirs :: "string list"
  fds :: "(nat \<times> string) list"

definition fs_exists :: "string \<Rightarrow> fsys \<Rightarrow> bool" where
  "fs_exists p s = (map_of (files s) p \<noteq> None \<or> p \<in> set (dirs s))"

fun dir_prefixes :: "string \<Rightarrow> string \<Rightarrow> string list" where
  \<comment> \<open>the proper prefixes of a name that end before a slash: its parent directories\<close>
  "dir_prefixes acc [] = []"
| "dir_prefixes acc (c # cs) =
     (if c = CHR ''/'' \<and> acc \<noteq> [] then acc # dir_prefixes (acc @ [c]) cs
      else dir_prefixes (acc @ [c]) cs)"

definition fs_makedirs :: "string \<Rightarrow> fsys \<Rightarrow> bool \<times> fsys" where
  \<comment> \<open>raises when the name exists or a parent is a regular file; creates the missing parents\<close>
  "fs_makedirs d s =
     (let parents = dir_prefixes [] d
      in if fs_exists d s \<or> list_ex (\<lambda>p. map_of (files s) p \<noteq> None) parents then (False, s)
         else (True, s\<lparr>dirs := d # filter (\<lambda>p. p \<notin> set (dirs s)) parents @ dirs s\<rparr>))"

definition fs_mkstemp :: "string \<Rightarrow> fsys \<Rightarrow> (nat \<times> string) option \<times> fsys" where
  "fs_mkstemp d s =
     (if d \<in> set (dirs s) then
        (let f = 3 + length (fds s);
             tmpname = d @ ''/tmp'' @ replicate (sum_list (map (\<lambda>e. length (fst e)) (files s))) CHR ''x''
         in (Some (f, tmpname), s\<lparr>files := (tmpname, []) # files s, fds := (f, tmpname) # fds s\<rparr>))
      else (None, s))"

definition fs_write :: "nat \<Rightarrow> string \<Rightarrow> fsys \<Rightarrow> bool \<times> fsys" where
  "fs_write f content s =
     (case map_of (fds s) f of
        None \<Rightarrow> (False, s)
      | Some p \<Rightarrow>
          (True, s\<lparr>files := (p, (case map_of (files s) p of None \<Rightarrow> [] | Some old \<Rightarrow> old) @ content)
                             # filter (\<lambda>e. fst e \<noteq> p) (files s)\<rparr>))"

definition fs_close :: "nat \<Rightarrow> fsys \<Rightarrow> bool \<times> fsys" where
  "fs_close f s =
     (case map_of (fds s) f of
        None \<Rightarrow> (False, s)
      | Some p \<Rightarrow> (True, s\<lparr>fds := filter (\<lambda>e. fst e \<noteq> f) (fds s)\<rparr>))"

definition fs_chmod :: "string \<Rightarrow> nat \<Rightarrow> fsys \<Rightarrow> bool \<times> fsys" where
  "fs_chmod p m s = (fs_exists p s, s)"

definition fs_rename :: "string \<Rightarrow> string \<Rightarrow> fsys \<Rightarrow> bool \<times> fsys" where
  "fs_rename a b s =
     (case map_of (files s) a of
        None \<Rightarrow> (False, s)
      | Some c \<Rightarrow>
          if b \<in> set (dirs s) then (False, s)
          else (True, s\<lparr>files := (b, c) # filter (\<lambda>e. fst e \<noteq> a \<and> fst e \<noteq> b) (files s)\<rparr>))"

definition fs_remove :: "string \<Rightarrow> fsys \<Rightarrow> bool \<times> fsys" where
  "fs_remove p s =
     (if map_of (files s) p \<noteq> None \<and> p \<notin> set (dirs s)
      then (True, s\<lparr>files := filter (\<lambda>e. fst e \<noteq> p) (files s)\<rparr>)
      else (False, s))"

definition fs_rmdir :: "string \<Rightarrow> fsys \<Rightarrow> bool \<times> fsys" where
  "fs_rmdir d s =
     (if d \<in> set (dirs s) \<and> list_all (\<lambda>p. \<not> prefix (d @ ''/'') p) (map fst (files s) @ dirs s)
      then (True, s\<lparr>dirs := removeAll d (dirs s)\<rparr>)
      else (False, s))"

definition fs_rmtree :: "string \<Rightarrow> fsys \<Rightarrow> fsys" where
  "fs_rmtree d s =
     s\<lparr>files := filter (\<lambda>e. fst e \<noteq> d \<and> \<not> prefix (d @ ''/'') (fst e)) (files s),
       dirs := filter (\<lambda>p. p \<noteq> d \<and> \<not> prefix (d @ ''/'') p) (dirs s)\<rparr>"

definition fs_os :: "(pystr \<Rightarrow> string + int \<times> string) \<Rightarrow> fsys os" where
  "fs_os pages =
     \<lparr>sys_exists = fs_exists, sys_makedirs = fs_makedirs, sys_mkstemp = fs_mkstemp,
      sys_write = fs_write, sys_close = fs_close, sys_chmod = fs_chmod,
      sys_rename = fs_rename, sys_remove = fs_remove, sys_rmdir = fs_rmdir,
      sys_rmtree = fs_rmtree, sys_handler = (\<lambda>path s. (pages path, s))\<rparr>"

definition pages0 :: "pystr \<Rightarrow> string + int \<times> string" where
  \<comment> \<open>a site with one page, one path that raises and a 404 for the rest\<close>
  "pages0 path =
     (if path = Str ''/post/1/'' then Inr (200, ''<html>'')
      else if path = Str ''/boom/'' then Inl ''boom''
      else Inr (404, ''not found''))"

definition world0 :: "fsys world" where
  "world0 = \<lparr>sys = \<lparr>files = [], dirs = [''/www''], fds = []\<rparr>, calls = []\<rparr>"

definition long_path :: pystr where
  "long_path = Str (CHR ''/'' # replicate 300 CHR ''a'')"

definition world1 :: "fsys world" where
  \<comment> \<open>\<open>world0\<close> after \<open>/post/1/\<close> has been published\<close>
  "world1 =
     \<lparr>sys = \<lparr>files = [(''/www/post/1/index.html%3F'', ''<html>'')],
             dirs = [''/www/post/1'', ''/www/post'', ''/www''], fds = []\<rparr>,
      calls = [Handler (Str ''/post/1/''), Exists ''/www/post/1'', Makedirs ''/www/post/1'',
               Mkstemp ''/www/post/1'' (Some (3, ''/www/post/1/tmp'')), Write 3 ''<html>'',
               Close 3, Chmod ''/www/post/1/tmp'' 420,
               Rename ''/www/post/1/tmp'' ''/www/post/1/index.html%3F'']\<rparr>"

section \<open>Strings and their encoding\<close>

lemma bind_exn_simps [simp]:
  "bind_exn (Inl e) f = Inl e" "bind_exn (Inr x) f = f x"
  by (simp_all add: bind_exn_def)

lemma bind_exn_eq_Inr: "bind_exn m f = Inr y \<longleftrightarrow> (\<exists>x. m = Inr x \<and> f x = Inr y)"
  by (cases m) auto

lemma is_ascii_append [simp]: "is_ascii (a @ b) \<longleftrightarrow> is_ascii a \<and> is_ascii b"
  by (simp add: is_ascii_def)

lemma is_ascii_Nil [simp]: "is_ascii []"
  by (simp add: is_ascii_def)

lemma is_ascii_Cons [simp]: "is_ascii (c # s) \<longleftrightarrow> (of_char c :: nat) < 128 \<and> is_ascii s"
  by (simp add: is_ascii_def)

lemma is_ascii_replicate [simp]: "is_ascii (replicate n c) \<longleftrightarrow> n = 0 \<or> (of_char c :: nat) < 128"
  by (auto simp: is_ascii_def list_all_iff)

lemma utf8_append [simp]: "utf8 (a @ b) = utf8 a @ utf8 b"
  by (simp add: utf8_def)

lemma utf8_Nil [simp]: "utf8 [] = []"
  by (simp add: utf8_def)

lemma utf8_ascii: "is_ascii s \<Longrightarrow> utf8 (map of_char s) = s"
  by (induction s) (auto simp: is_ascii_def utf8_def utf8_char_def)

lemma encode_utf8_Str: "encode_utf8 (Str s) = (if is_ascii s then Inr s else Inl UnicodeDecodeError)"
  by (simp add: decode_ascii_def utf8_ascii)

lemma encode_add:
  "py_add a b = Inr c \<Longrightarrow> encode_utf8 c = Inr cb \<Longrightarrow>
   \<exists>ab bb. encode_utf8 a = Inr ab \<and> encode_utf8 b = Inr bb \<and> cb = ab @ bb"
  by (cases a; cases b) (auto simp: decode_ascii_def utf8_ascii split: if_splits)

lemma py_add_assoc:
  "bind_exn (py_add a b) (\<lambda>ab. py_add ab c) = bind_exn (py_add b c) (\<lambda>bc. py_add a bc)"
  by (cases a; cases b; cases c) (auto simp: decode_ascii_def)

lemma of_char_slash: "(of_char c :: nat) = 47 \<longleftrightarrow> c = CHR ''/''"
proof -
  have "(of_char (CHR ''/'') :: nat) = 47" by simp
  then show ?thesis by (metis of_char_eq_iff)
qed

lemma dropWhile_append_keep:
  "ys \<noteq> [] \<Longrightarrow> \<not> P (hd ys) \<Longrightarrow> dropWhile P (xs @ ys) = dropWhile P xs @ ys"
  by (induction xs) (auto simp: neq_Nil_conv)

lemma is_ascii_lstrip: "is_ascii (dropWhile (\<lambda>c. c = CHR ''/'') s) = is_ascii s"
  by (induction s) (auto simp: is_ascii_def)

lemma map_of_char_lstrip:
  "map of_char (dropWhile (\<lambda>c. c = CHR ''/'') s) = dropWhile (\<lambda>c. c = (47::nat)) (map of_char s)"
  by (induction s) (auto simp: of_char_slash)

lemma not_startswith_lstrip [simp]: "\<not> py_startswith_slash (py_lstrip_slash x)"
  using hd_dropWhile [of "\<lambda>c. c = CHR ''/''"] hd_dropWhile [of "\<lambda>c. c = (47::nat)"]
  by (cases x) auto

lemma py_empty_no_slash: "py_empty x \<Longrightarrow> \<not> py_startswith_slash x"
  by (cases x) auto

lemma lstrip_add:
  assumes "\<not> py_empty s" "\<not> py_startswith_slash s"
  shows "bind_exn (py_add x s) (\<lambda>y. Inr (py_lstrip_slash y)) = py_add (py_lstrip_slash x) s"
  using assms
  by (cases x; cases s)
     (auto simp: decode_ascii_def dropWhile_append_keep is_ascii_lstrip map_of_char_lstrip
                 of_char_slash hd_map)

lemma dropWhile_append_last:
  "xs \<noteq> [] \<Longrightarrow> \<not> P (last xs) \<Longrightarrow> dropWhile P (xs @ ys) = dropWhile P xs @ ys"
  by (rule dropWhile_append1 [of "last xs"]) auto

lemma lstrip_add_path:
  assumes "\<not> py_empty x" "\<not> py_endswith_slash x"
  shows "bind_exn (py_add x s) (\<lambda>y. Inr (py_lstrip_slash y)) = py_add (py_lstrip_slash x) s"
  using assms
  by (cases x; cases s)
     (auto simp: decode_ascii_def dropWhile_append_last is_ascii_lstrip map_of_char_lstrip
                 of_char_slash last_map)

lemma startswith_add:
  "py_add b s = Inr bs \<Longrightarrow> \<not> py_startswith_slash b \<Longrightarrow> \<not> py_empty b \<or> \<not> py_startswith_slash s \<Longrightarrow>
   \<not> py_startswith_slash bs"
  by (cases b; cases s)
     (auto simp: decode_ascii_def of_char_slash hd_append hd_map split: if_splits)

lemma bind_exn_assoc: "bind_exn (bind_exn m f) g = bind_exn m (\<lambda>x. bind_exn (f x) g)"
  by (cases m) auto

lemma join_add:
  assumes "\<not> py_startswith_slash b" "\<not> py_empty b \<or> \<not> py_startswith_slash s"
  shows "bind_exn (os_path_join r b) (\<lambda>j. py_add j s) = bind_exn (py_add b s) (os_path_join r)"
proof -
  let ?G = "\<lambda>bs. if py_empty r \<or> py_endswith_slash r then py_add r bs
                  else bind_exn (py_add (Str ''/'') bs) (\<lambda>sb. py_add r sb)"
  have "bind_exn (os_path_join r b) (\<lambda>j. py_add j s) = bind_exn (py_add b s) ?G"
  proof (cases "py_empty r \<or> py_endswith_slash r")
    case True
    then show ?thesis using assms(1) py_add_assoc [of r b s]
      by (simp add: os_path_join_def)
  next
    case False
    have "bind_exn (os_path_join r b) (\<lambda>j. py_add j s) =
          bind_exn (py_add (Str ''/'') b) (\<lambda>sb. bind_exn (py_add r sb) (\<lambda>j. py_add j s))"
      using False assms(1) by (simp add: os_path_join_def bind_exn_assoc)
    also have "\<dots> = bind_exn (py_add (Str ''/'') b) (\<lambda>sb. bind_exn (py_add sb s) (\<lambda>x. py_add r x))"
      by (simp add: py_add_assoc)
    also have "\<dots> = bind_exn (bind_exn (py_add (Str ''/'') b) (\<lambda>sb. py_add sb s)) (\<lambda>x. py_add r x)"
      by (simp add: bind_exn_assoc)
    also have "\<dots> = bind_exn (bind_exn (py_add b s) (\<lambda>bs. py_add (Str ''/'') bs)) (\<lambda>x. py_add r x)"
      by (simp add: py_add_assoc)
    also have "\<dots> = bind_exn (py_add b s) ?G"
      using False by (simp add: bind_exn_assoc)
    finally show ?thesis .
  qed
  also have "\<dots> = bind_exn (py_add b s) (os_path_join r)"
  proof (cases "py_add b s")
    case (Inl e)
    then show ?thesis by simp
  next
    case (Inr bs)
    then show ?thesis using startswith_add [OF Inr assms] by (simp add: os_path_join_def)
  qed
  finally show ?thesis .
qed

lemma lstrip_nonempty:
  "\<not> py_empty p \<Longrightarrow> \<not> py_endswith_slash p \<Longrightarrow> \<not> py_empty (py_lstrip_slash p)"
proof (cases p)
  case (Str s)
  assume "\<not> py_empty p" "\<not> py_endswith_slash p"
  with Str have "s \<noteq> []" "last s \<noteq> CHR ''/''" by auto
  then have "\<exists>x\<in>set s. x \<noteq> CHR ''/''" using last_in_set by blast
  then show ?thesis using Str by (simp add: dropWhile_eq_Nil_conv)
next
  case (Unicode u)
  assume "\<not> py_empty p" "\<not> py_endswith_slash p"
  with Unicode have "u \<noteq> []" "last u \<noteq> 47" by auto
  then have "\<exists>x\<in>set u. x \<noteq> 47" using last_in_set by blast
  then show ?thesis using Unicode by (simp add: dropWhile_eq_Nil_conv)
qed

lemma join_lstrip_add_encode:
  assumes add: "py_add x (Str lit) = Inr y" and lit: "lit \<noteq> []" "hd lit \<noteq> CHR ''/''"
    and join: "os_path_join r (py_lstrip_slash y) = Inr jy" and enc: "encode_utf8 jy = Inr fy"
  shows "\<exists>j fj. os_path_join r (py_lstrip_slash x) = Inr j \<and> encode_utf8 j = Inr fj \<and> fy = fj @ lit"
proof -
  have s: "\<not> py_empty (Str lit)" "\<not> py_startswith_slash (Str lit)" using lit by auto
  have "py_add (py_lstrip_slash x) (Str lit) = Inr (py_lstrip_slash y)"
    using lstrip_add [OF s, of x] add by simp
  then have "bind_exn (os_path_join r (py_lstrip_slash x)) (\<lambda>j. py_add j (Str lit)) = Inr jy"
    using join_add [of "py_lstrip_slash x" "Str lit" r] s join by simp
  then obtain j where j: "os_path_join r (py_lstrip_slash x) = Inr j" "py_add j (Str lit) = Inr jy"
    by (auto simp: bind_exn_eq_Inr)
  from encode_add [OF j(2) enc] obtain fj fl where
    fj: "encode_utf8 j = Inr fj" and fl: "encode_utf8 (Str lit) = Inr fl" and fy: "fy = fj @ fl"
    by blast
  from fl have "fl = lit"
    by (simp add: encode_utf8_Str del: encode_utf8.simps split: if_splits)
  with j(1) fj fy show ?thesis by simp
qed

lemma composed_ajax:
  assumes "composed_filename r p q True = Inr fa"
  shows "\<exists>fn. composed_filename r p q False = Inr fn \<and> fa = fn @ '',ajax''"
proof -
  from assms obtain path1 path2 path3 jy where
    p1: "(if py_endswith_slash p then py_add p (Str ''index.html%3F'') else Inr p) = Inr path1"
    and p2: "(case q of None \<Rightarrow> Inr path1
              | Some q' \<Rightarrow> if py_empty q' then Inr path1 else py_add path1 q') = Inr path2"
    and p3: "py_add path2 (Str '',ajax'') = Inr path3"
    and j: "os_path_join r (py_lstrip_slash path3) = Inr jy" and e: "encode_utf8 jy = Inr fa"
    unfolding composed_filename_def by (auto simp: bind_exn_eq_Inr)
  from join_lstrip_add_encode [OF p3 _ _ j e] obtain j' fj where
    "os_path_join r (py_lstrip_slash path2) = Inr j'" "encode_utf8 j' = Inr fj" "fa = fj @ '',ajax''"
    by auto
  then show ?thesis using p1 p2 unfolding composed_filename_def by simp
qed

lemma py_add_ascii_lit: "is_ascii lit \<Longrightarrow> \<exists>y. py_add x (Str lit) = Inr y"
  by (cases x) (auto simp: decode_ascii_def)

lemma encode_add_lit:
  "encode_utf8 j = Inr fj \<Longrightarrow> is_ascii lit \<Longrightarrow> py_add j (Str lit) = Inr js \<Longrightarrow>
   encode_utf8 js = Inr (fj @ lit)"
  by (cases j) (auto simp: decode_ascii_def utf8_ascii split: if_splits)

lemma composed_ajax_conv:
  assumes "composed_filename r p q False = Inr fn"
  shows "composed_filename r p q True = Inr (fn @ '',ajax'')"
proof -
  let ?s = "Str '',ajax''"
  have asc: "is_ascii '',ajax''" by simp
  from assms obtain path1 path2 j where
    p1: "(if py_endswith_slash p then py_add p (Str ''index.html%3F'') else Inr p) = Inr path1"
    and p2: "(case q of None \<Rightarrow> Inr path1
              | Some q' \<Rightarrow> if py_empty q' then Inr path1 else py_add path1 q') = Inr path2"
    and j: "os_path_join r (py_lstrip_slash path2) = Inr j" and e: "encode_utf8 j = Inr fn"
    unfolding composed_filename_def by (auto simp: bind_exn_eq_Inr)
  from py_add_ascii_lit [OF asc] obtain path3 where p3: "py_add path2 ?s = Inr path3" by blast
  from py_add_ascii_lit [OF asc] obtain js where js: "py_add j ?s = Inr js" by blast
  have s: "\<not> py_empty ?s" "\<not> py_startswith_slash ?s" by simp_all
  have "py_add (py_lstrip_slash path2) ?s = Inr (py_lstrip_slash path3)"
    using lstrip_add [OF s, of path2] p3 by simp
  then have "os_path_join r (py_lstrip_slash path3) = Inr js"
    using join_add [of "py_lstrip_slash path2" ?s r] s j js by simp
  moreover have "encode_utf8 js = Inr (fn @ '',ajax'')"
    by (rule encode_add_lit [OF e asc js])
  ultimately show ?thesis using p1 p2 p3 unfolding composed_filename_def by simp
qed

section \<open>Splitting the query string\<close>

lemma split_on_nonempty: "split_on c xs \<noteq> []"
  by (induction xs) (auto simp: Let_def)

lemma length_split_on: "length (split_on c xs) = Suc (count_list xs c)"
  by (induction xs) (auto simp: Let_def split_on_nonempty)

lemma split_on_none: "count_list xs c = 0 \<Longrightarrow> split_on c xs = [xs]"
  by (induction xs) (auto simp: Let_def split: if_splits)

lemma split_on_one:
  "count_list xs c = 1 \<Longrightarrow>
   split_on c xs = [takeWhile (\<lambda>x. x \<noteq> c) xs, tl (dropWhile (\<lambda>x. x \<noteq> c) xs)]"
  by (induction xs) (auto simp: Let_def split_on_none split: if_splits)

lemma split_on_absent: "c \<notin> set xs \<Longrightarrow> split_on c xs = [xs]"
  by (simp add: split_on_none)

text \<open>
  C4. \<open>get_query_string_from_path\<close> returns the whole path and no query string when the
  raw path has no question mark, the part before and the part after the question mark when
  it has exactly one, and raises \<open>StaticGeneratorException\<close> ('Path ... has multiple query
  string values') when it has two or more: nothing is cut off silently.
\<close>

theorem get_query_string_from_path_cases:
  "(py_count_qmark path = 0 \<longrightarrow> get_query_string_from_path path = Inr (path, None)) \<and>
   (py_count_qmark path = 1 \<longrightarrow>
      get_query_string_from_path path = Inr (py_before_qmark path, Some (py_after_qmark path))) \<and>
   (py_count_qmark path \<ge> 2 \<longrightarrow>
      get_query_string_from_path path = Inl (StaticGeneratorException (MultipleQueryStrings path)))"
  by (cases path)
     (auto simp: get_query_string_from_path_def Let_def length_split_on split_on_none split_on_one)

theorem get_query_string_from_path_cases_witness:
  "get_query_string_from_path (Str ''/a/b?x=1'') = Inr (Str ''/a/b'', Some (Str ''x=1'')) \<and>
   get_query_string_from_path (Str ''/a/b'') = Inr (Str ''/a/b'', None) \<and>
   get_query_string_from_path (Unicode [47, 97, 63, 63]) =
     Inl (StaticGeneratorException (MultipleQueryStrings (Unicode [47, 97, 63, 63])))"
  using get_query_string_from_path_cases [of "Str ''/a/b?x=1''"]
        get_query_string_from_path_cases [of "Str ''/a/b''"]
        get_query_string_from_path_cases [of "Unicode [47, 97, 63, 63]"]
  by simp

section \<open>The path mapper on concrete paths\<close>

lemmas mapper_eval =
  get_filename_from_path_def composed_filename_def os_path_join_def os_path_dirname_def
  encode_utf8_Str get_query_string_from_path_def

lemma split1: "get_query_string_from_path (Str ''/post/1/'') = Inr (Str ''/post/1/'', None)"
  by (simp add: mapper_eval)

lemma loc1: "get_filename_from_path (Str ''/www'') (Str ''/post/1/'') None False =
             Inr (Some (''/www/post/1/index.html%3F'', ''/www/post/1''))"
  by (simp add: mapper_eval del: encode_utf8.simps)

lemma split_long: "get_query_string_from_path long_path = Inr (long_path, None)"
  by (simp add: get_query_string_from_path_def long_path_def split_on_absent)

lemma composed_long:
  "composed_filename (Str ''/www'') long_path None False = Inr (''/www/'' @ replicate 300 CHR ''a'')"
  by (simp add: mapper_eval long_path_def del: encode_utf8.simps)

lemma split_boom: "get_query_string_from_path (Str ''/boom/'') = Inr (Str ''/boom/'', None)"
  by (simp add: mapper_eval)

lemma loc_boom: "get_filename_from_path (Str ''/www'') (Str ''/boom/'') None False =
             Inr (Some (''/www/boom/index.html%3F'', ''/www/boom''))"
  by (simp add: mapper_eval del: encode_utf8.simps)

lemma split_q: "get_query_string_from_path (Str ''/a?x=1'') = Inr (Str ''/a'', Some (Str ''x=1''))"
  by (simp add: mapper_eval)

lemma loc_q: "get_filename_from_path (Str ''/www'') (Str ''/a'') (Some (Str ''x=1'')) False =
             Inr (Some (''/www/ax=1'', ''/www''))"
  by (simp add: mapper_eval del: encode_utf8.simps)

lemma loc_near:
  "get_filename_from_path (Str ''/www'') (Str (CHR ''/'' # replicate 248 CHR ''a'')) None False =
     Inr (Some (''/www/'' @ replicate 248 CHR ''a'', os_path_dirname (''/www/'' @ replicate 248 CHR ''a'')))"
  by (simp add: get_filename_from_path_def composed_filename_def os_path_join_def encode_utf8_Str
           del: encode_utf8.simps)

section \<open>Properties of the path mapper\<close>

text \<open>
  C1 (as the code has it). For a path ending in a slash, with no query string and no AJAX
  flag, every filename that \<open>get_filename_from_path\<close> returns ends in \<open>index.html%3F\<close>:
  the percent-encoded question mark that the comment in the source announces, not a literal
  question mark. No filename is returned when the composed name is longer than 255 bytes.
\<close>

theorem index_filename_suffix:
  assumes "py_endswith_slash p"
    and "get_filename_from_path r p None False = Inr (Some (fn, d))"
  shows "suffix ''index.html%3F'' fn"
proof -
  from assms obtain path1 jy where
    p1: "py_add p (Str ''index.html%3F'') = Inr path1"
    and j: "os_path_join r (py_lstrip_slash path1) = Inr jy" and e: "encode_utf8 jy = Inr fn"
    unfolding get_filename_from_path_def composed_filename_def
    by (auto simp: bind_exn_eq_Inr split: if_splits)
  from join_lstrip_add_encode [OF p1 _ _ j e] show ?thesis
    by (auto simp: suffix_def)
qed

theorem index_filename_suffix_witness:
  "py_endswith_slash (Str ''/post/1/'') \<and>
   get_filename_from_path (Str ''/www'') (Str ''/post/1/'') None False =
     Inr (Some (''/www/post/1/index.html%3F'', ''/www/post/1'')) \<and>
   suffix ''index.html%3F'' ''/www/post/1/index.html%3F''"
proof -
  have h1: "py_endswith_slash (Str ''/post/1/'')" by simp
  note h2 = loc1
  show ?thesis by (rule conjI [OF h1 conjI [OF h2 index_filename_suffix [OF h1 h2]]])
qed

text \<open>
  The filename of \<open>/post/1/\<close> under the root \<open>/www\<close> does not end in a literal
  question mark.
\<close>

theorem index_filename_question_mark_counterexample:
  "py_endswith_slash (Str ''/post/1/'') \<and>
   get_filename_from_path (Str ''/www'') (Str ''/post/1/'') None False =
     Inr (Some (''/www/post/1/index.html%3F'', ''/www/post/1'')) \<and>
   \<not> suffix ''index.html?'' ''/www/post/1/index.html%3F''"
  by (simp add: mapper_eval suffix_to_prefix del: encode_utf8.simps)

text \<open>
  C7 (as the code has it). Whenever the mapping of a path and query string yields a
  location, with the AJAX flag or without it, the result with the flag differs from the
  result without it. The mapping without the flag then yields a filename, and the mapping
  with the flag yields that filename followed by \<open>,ajax\<close> when the longer name has at
  most 255 bytes, and no location when it has more: near the limit only the name without
  the suffix fits.
\<close>

theorem ajax_location_differs:
  assumes "get_filename_from_path r p q False = Inr (Some loc) \<or>
           get_filename_from_path r p q True = Inr (Some loc)"
  shows "get_filename_from_path r p q True \<noteq> get_filename_from_path r p q False \<and>
         (\<exists>fn. get_filename_from_path r p q False = Inr (Some (fn, os_path_dirname fn)) \<and>
               get_filename_from_path r p q True =
                 (if length (fn @ '',ajax'') > 255 then Inr None
                  else Inr (Some (fn @ '',ajax'', os_path_dirname (fn @ '',ajax'')))))"
proof -
  have "\<exists>fn. composed_filename r p q False = Inr fn \<and> length fn \<le> 255"
  proof (cases "get_filename_from_path r p q False = Inr (Some loc)")
    case True
    then show ?thesis
      by (auto simp: get_filename_from_path_def bind_exn_eq_Inr split: if_splits)
  next
    case False
    with assms have "get_filename_from_path r p q True = Inr (Some loc)" by simp
    then obtain fa where fa: "composed_filename r p q True = Inr fa" "length fa \<le> 255"
      by (auto simp: get_filename_from_path_def bind_exn_eq_Inr split: if_splits)
    from composed_ajax [OF fa(1)] fa(2) show ?thesis by auto
  qed
  then obtain fn where fn: "composed_filename r p q False = Inr fn" "length fn \<le> 255" by blast
  note fa = composed_ajax_conv [OF fn(1)]
  have f: "get_filename_from_path r p q False = Inr (Some (fn, os_path_dirname fn))"
    using fn by (simp add: get_filename_from_path_def)
  have t: "get_filename_from_path r p q True =
             (if length (fn @ '',ajax'') > 255 then Inr None
              else Inr (Some (fn @ '',ajax'', os_path_dirname (fn @ '',ajax''))))"
    using fa by (simp add: get_filename_from_path_def)
  have "get_filename_from_path r p q True \<noteq> get_filename_from_path r p q False"
    by (simp only: f t) (simp split: if_splits)
  with f t show ?thesis by blast
qed

theorem ajax_location_differs_witness:
  "(get_filename_from_path (Str ''/www'') (Str ''/post/1/'') None True \<noteq>
    get_filename_from_path (Str ''/www'') (Str ''/post/1/'') None False \<and>
    get_filename_from_path (Str ''/www'') (Str ''/post/1/'') None True =
      Inr (Some (''/www/post/1/index.html%3F,ajax'', ''/www/post/1''))) \<and>
   (get_filename_from_path (Str ''/www'') (Str (CHR ''/'' # replicate 248 CHR ''a'')) None True \<noteq>
    get_filename_from_path (Str ''/www'') (Str (CHR ''/'' # replicate 248 CHR ''a'')) None False \<and>
    get_filename_from_path (Str ''/www'') (Str (CHR ''/'' # replicate 248 CHR ''a'')) None True =
      Inr None)"
proof -
  note a = ajax_location_differs [OF disjI1 [OF loc1]]
  note b = ajax_location_differs [OF disjI1 [OF loc_near]]
  have a': "get_filename_from_path (Str ''/www'') (Str ''/post/1/'') None True =
      Inr (Some (''/www/post/1/index.html%3F,ajax'', ''/www/post/1''))"
    using a loc1 by (auto simp: os_path_dirname_def)
  have b': "get_filename_from_path (Str ''/www'') (Str (CHR ''/'' # replicate 248 CHR ''a'')) None True =
      Inr None"
    using b loc_near by auto
  from a a' b b' show ?thesis by blast
qed

text \<open>
  A path of 301 characters maps to no location with the AJAX flag and without it: the two
  results are equal.
\<close>

theorem ajax_location_equal_counterexample:
  "get_filename_from_path (Str ''/www'') (Str (CHR ''/'' # replicate 300 CHR ''a'')) None True =
   get_filename_from_path (Str ''/www'') (Str (CHR ''/'' # replicate 300 CHR ''a'')) None False"
  by (simp add: mapper_eval del: encode_utf8.simps)

text \<open>
  C9 (as the code has it). For a non-empty path \<open>p\<close> not ending in a slash and a non-empty
  query string \<open>q\<close>, let the claimed filename be the encoding of the web root joined with
  \<open>p\<close> (leading slashes stripped), immediately followed by \<open>q\<close>. When that filename has
  at most 255 bytes, \<open>get_filename_from_path\<close> without the AJAX flag returns exactly it,
  with nothing between the bytes of the joined path and the bytes of \<open>q\<close>.
\<close>

theorem query_appended_verbatim:
  assumes p: "\<not> py_empty p" "\<not> py_endswith_slash p" and q: "\<not> py_empty q"
    and j: "os_path_join r (py_lstrip_slash p) = Inr j"
    and jq: "py_add j q = Inr jq" and e: "encode_utf8 jq = Inr fn"
    and len: "length fn \<le> 255"
  shows "get_filename_from_path r p (Some q) False = Inr (Some (fn, os_path_dirname fn)) \<and>
         (\<exists>fj fq. encode_utf8 j = Inr fj \<and> encode_utf8 q = Inr fq \<and> fn = fj @ fq)"
proof -
  let ?b = "py_lstrip_slash p"
  have "bind_exn (py_add ?b q) (os_path_join r) = Inr jq"
    using join_add [of ?b q r] lstrip_nonempty [OF p] j jq by simp
  then obtain bq where bq: "py_add ?b q = Inr bq" "os_path_join r bq = Inr jq"
    by (auto simp: bind_exn_eq_Inr)
  then have "bind_exn (py_add p q) (\<lambda>y. Inr (py_lstrip_slash y)) = Inr bq"
    using lstrip_add_path [OF p, of q] by simp
  then obtain pq where "py_add p q = Inr pq" "py_lstrip_slash pq = bq"
    by (auto simp: bind_exn_eq_Inr)
  then have "composed_filename r p (Some q) False = Inr fn"
    using p q bq e by (simp add: composed_filename_def)
  then show ?thesis using len encode_add [OF jq e]
    by (simp add: get_filename_from_path_def)
qed

theorem query_appended_verbatim_witness:
  "get_filename_from_path (Str ''/www'') (Str ''/a/b'') (Some (Str ''x=1'')) False =
     Inr (Some (''/www/a/bx=1'', os_path_dirname ''/www/a/bx=1'')) \<and>
   (\<exists>fj fq. encode_utf8 (Str ''/www/a/b'') = Inr fj \<and> encode_utf8 (Str ''x=1'') = Inr fq \<and>
             ''/www/a/bx=1'' = fj @ fq)"
proof -
  have h1: "\<not> py_empty (Str ''/a/b'')" and h2: "\<not> py_endswith_slash (Str ''/a/b'')"
    and h3: "\<not> py_empty (Str ''x=1'')" by simp_all
  have h4: "os_path_join (Str ''/www'') (py_lstrip_slash (Str ''/a/b'')) = Inr (Str ''/www/a/b'')"
    by (simp add: os_path_join_def)
  have h5: "py_add (Str ''/www/a/b'') (Str ''x=1'') = Inr (Str ''/www/a/bx=1'')" by simp
  have h6: "encode_utf8 (Str ''/www/a/bx=1'') = Inr ''/www/a/bx=1''"
    by (simp add: encode_utf8_Str del: encode_utf8.simps)
  have h7: "length ''/www/a/bx=1'' \<le> 255" by simp
  show ?thesis by (rule query_appended_verbatim [OF h1 h2 h3 h4 h5 h6 h7])
qed

text \<open>
  Beyond 255 bytes the mapping of such a path and query string yields no filename at all.
\<close>

theorem query_appended_oversized_counterexample:
  "\<not> py_endswith_slash (Str (CHR ''/'' # replicate 300 CHR ''a'')) \<and> \<not> py_empty (Str ''x=1'') \<and>
   get_filename_from_path (Str ''/www'') (Str (CHR ''/'' # replicate 300 CHR ''a''))
     (Some (Str ''x=1'')) False = Inr None"
  by (simp add: mapper_eval del: encode_utf8.simps)

section \<open>Running the program on the small file system\<close>

lemma file_mode_value: "file_mode = 420"
  by (simp add: file_mode_def S_IRUSR_def S_IWUSR_def S_IREAD_def S_IWRITE_def S_IRGRP_def S_IROTH_def)

lemmas fs_eval =
  fs_os_def fs_exists_def fs_makedirs_def fs_mkstemp_def fs_write_def fs_close_def
  fs_chmod_def fs_rename_def fs_remove_def fs_rmdir_def fs_rmtree_def pages0_def world0_def

lemmas os_eval =
  os_path_exists_def os_makedirs_def tempfile_mkstemp_def os_write_def os_close_def
  os_chmod_def os_rename_def os_remove_def os_rmdir_def shutil_rmtree_def call_handler_def
  get_content_from_path_def write_and_rename_def store_file_def publish_from_path_def
  delete_from_path_def recursive_delete_from_path_def Let_def

lemma pub1':
  "publish_from_path (fs_os pages0) (Str ''/www'') (Str ''/post/1/'') None None False world0 =
     (Inr (), world1)"
  by (simp add: split1 loc1 os_eval fs_eval file_mode_value world1_def)

lemma pub_boom:
  "publish_from_path (fs_os pages0) (Str ''/www'') (Str ''/boom/'') None None False world1 =
     (Inl (StaticGeneratorException (PageRaised (Str ''/boom/'') ''boom'')),
      world1\<lparr>calls := calls world1 @ [Handler (Str ''/boom/'')]\<rparr>)"
  by (simp add: split_boom loc_boom os_eval fs_eval world1_def)

section \<open>Paths that are too long\<close>

lemma get_filename_oversized:
  "composed_filename web_root path qs is_ajax = Inr filename \<Longrightarrow> length filename > 255 \<Longrightarrow>
   get_filename_from_path web_root path qs is_ajax = Inr None"
  by (simp add: get_filename_from_path_def bind_exn_def)

text \<open>
  C3. When the composed filename of a path is longer than 255 bytes,
  \<open>get_filename_from_path\<close> returns no location instead of raising, and
  \<open>publish_from_path\<close> returns normally and leaves the world as it was: no call of the
  operating system (no write, no directory) and no call of the handler is made.
\<close>

theorem publish_oversized_is_noop:
  assumes "(case query_string of None \<Rightarrow> get_query_string_from_path path
            | Some q \<Rightarrow> Inr (path, Some q)) = Inr (path', qs)"
    and "composed_filename web_root path' qs is_ajax = Inr filename"
    and "length filename > 255"
  shows "get_filename_from_path web_root path' qs is_ajax = Inr None \<and>
         publish_from_path os web_root path query_string content is_ajax w = (Inr (), w)"
  using assms get_filename_oversized [OF assms(2,3)]
  by (simp add: publish_from_path_def)

theorem publish_oversized_is_noop_witness:
  "get_query_string_from_path long_path = Inr (long_path, None) \<and>
   composed_filename (Str ''/www'') long_path None False = Inr (''/www/'' @ replicate 300 CHR ''a'') \<and>
   length (''/www/'' @ replicate 300 CHR ''a'') > 255 \<and>
   get_filename_from_path (Str ''/www'') long_path None False = Inr None \<and>
   publish_from_path (fs_os pages0) (Str ''/www'') long_path None None False world0 = (Inr (), world0)"
proof -
  have h1: "(case None of None \<Rightarrow> get_query_string_from_path long_path
             | Some q \<Rightarrow> Inr (long_path, Some q)) = Inr (long_path, None)"
    by (simp add: split_long)
  have h3: "length (''/www/'' @ replicate 300 CHR ''a'') > 255" by simp
  show ?thesis
    by (rule conjI [OF split_long conjI [OF composed_long conjI [OF h3
          publish_oversized_is_noop [OF h1 composed_long h3]]]])
qed

text \<open>
  C10. When the composed filename of a path is longer than 255 bytes, \<open>delete_from_path\<close>
  does not skip the path: \<open>os.path.exists(None)\<close> raises inside the \<open>try\<close> and the
  function raises \<open>StaticGeneratorException\<close> ('Could not delete file: None'), where
  \<open>publish_from_path\<close> on the same path returns normally.
\<close>

theorem delete_oversized_raises:
  assumes "get_query_string_from_path path = Inr (path', qs)"
    and "composed_filename web_root path' qs is_ajax = Inr filename"
    and "length filename > 255"
  shows "delete_from_path os web_root path is_ajax w =
           (Inl (StaticGeneratorException (CouldNotDeleteFile None)), w) \<and>
         publish_from_path os web_root path None content is_ajax w = (Inr (), w)"
  using assms get_filename_oversized [OF assms(2,3)]
  by (simp add: delete_from_path_def publish_from_path_def os_path_exists_def)

theorem delete_oversized_raises_witness:
  "get_query_string_from_path long_path = Inr (long_path, None) \<and>
   composed_filename (Str ''/www'') long_path None False = Inr (''/www/'' @ replicate 300 CHR ''a'') \<and>
   length (''/www/'' @ replicate 300 CHR ''a'') > 255 \<and>
   delete_from_path (fs_os pages0) (Str ''/www'') long_path False world0 =
     (Inl (StaticGeneratorException (CouldNotDeleteFile None)), world0) \<and>
   publish_from_path (fs_os pages0) (Str ''/www'') long_path None None False world0 = (Inr (), world0)"
proof -
  have h3: "length (''/www/'' @ replicate 300 CHR ''a'') > 255" by simp
  show ?thesis
    by (rule conjI [OF split_long conjI [OF composed_long conjI [OF h3
          delete_oversized_raises [OF split_long composed_long h3]]]])
qed

section \<open>Rendering\<close>

lemma store_file_not_code:
  "fst (store_file os filename directory content w) \<noteq>
     Inl (StaticGeneratorException (PageReturnedCode p c))"
  by (auto simp: store_file_def os_path_exists_def Let_def split: prod.splits if_splits)

text \<open>
  C6. When \<open>publish_from_path\<close> has a location and no content, it calls the handler with
  the path it was given, query string included. If the handler raises, the publication
  fails with the message built from that path and the text of the error; if it answers
  with a status other than 200, the publication fails with the message built from that
  path and the status, and in no other case; on status 200 the body of the response is
  the content that is stored.
\<close>

theorem publish_renders_with_original_path:
  assumes "(case query_string of None \<Rightarrow> get_query_string_from_path path
            | Some q \<Rightarrow> Inr (path, Some q)) = Inr (path', qs)"
    and "get_filename_from_path web_root path' qs is_ajax = Inr (Some (filename, directory))"
    and "filename \<noteq> []"
    and "content = None \<or> content = Some []"
    and "sys_handler os path (sys w) = (r, s1)"
    and "w1 = \<lparr>sys = s1, calls = calls w @ [Handler path]\<rparr>"
  shows "(\<forall>err. r = Inl err \<longrightarrow>
            publish_from_path os web_root path query_string content is_ajax w =
              (Inl (StaticGeneratorException (PageRaised path err)), w1)) \<and>
         (\<forall>status body. r = Inr (status, body) \<and> status \<noteq> 200 \<longrightarrow>
            publish_from_path os web_root path query_string content is_ajax w =
              (Inl (StaticGeneratorException (PageReturnedCode path status)), w1)) \<and>
         (\<forall>body. r = Inr (200, body) \<longrightarrow>
            publish_from_path os web_root path query_string content is_ajax w =
              store_file os filename directory body w1) \<and>
         ((\<exists>p c. fst (publish_from_path os web_root path query_string content is_ajax w) =
                   Inl (StaticGeneratorException (PageReturnedCode p c))) \<longleftrightarrow>
          (\<exists>status body. r = Inr (status, body) \<and> status \<noteq> 200))"
  using assms store_file_not_code [of os filename directory _ w1]
  by (auto simp: publish_from_path_def get_content_from_path_def call_handler_def
           split: sum.splits prod.splits)

theorem publish_renders_with_original_path_witness:
  "get_query_string_from_path (Str ''/a?x=1'') = Inr (Str ''/a'', Some (Str ''x=1'')) \<and>
   get_filename_from_path (Str ''/www'') (Str ''/a'') (Some (Str ''x=1'')) False =
     Inr (Some (''/www/ax=1'', ''/www'')) \<and>
   sys_handler (fs_os pages0) (Str ''/a?x=1'') (sys world0) = (Inr (404, ''not found''), sys world0) \<and>
   publish_from_path (fs_os pages0) (Str ''/www'') (Str ''/a?x=1'') None None False world0 =
     (Inl (StaticGeneratorException (PageReturnedCode (Str ''/a?x=1'') 404)),
      \<lparr>sys = sys world0, calls = calls world0 @ [Handler (Str ''/a?x=1'')]\<rparr>)"
proof -
  have h1: "(case None of None \<Rightarrow> get_query_string_from_path (Str ''/a?x=1'')
             | Some q \<Rightarrow> Inr (Str ''/a?x=1'', Some q)) = Inr (Str ''/a'', Some (Str ''x=1''))"
    by (simp add: split_q)
  have h3: "''/www/ax=1'' \<noteq> []" by simp
  have h4: "(None :: string option) = None \<or> (None :: string option) = Some []" by simp
  have h5: "sys_handler (fs_os pages0) (Str ''/a?x=1'') (sys world0) =
              (Inr (404, ''not found''), sys world0)"
    by (simp add: fs_os_def pages0_def)
  from publish_renders_with_original_path [OF h1 loc_q h3 h4 h5 refl]
  have "publish_from_path (fs_os pages0) (Str ''/www'') (Str ''/a?x=1'') None None False world0 =
     (Inl (StaticGeneratorException (PageReturnedCode (Str ''/a?x=1'') 404)),
      \<lparr>sys = sys world0, calls = calls world0 @ [Handler (Str ''/a?x=1'')]\<rparr>)"
    by simp
  then show ?thesis using split_q loc_q h5 by simp
qed

section \<open>The batch driver\<close>

lemma do_all_append:
  "do_all func (xs @ ys) w =
     (case do_all func xs w of
        (Inl e, w1) \<Rightarrow> (Inl e, w1)
      | (Inr rs, w1) \<Rightarrow>
          (case do_all func ys w1 of
             (Inl e, w2) \<Rightarrow> (Inl e, w2)
           | (Inr rs', w2) \<Rightarrow> (Inr (rs @ rs'), w2)))"
  by (induction xs arbitrary: w) (auto split: prod.splits sum.splits)

text \<open>
  C8. \<open>do_all\<close> applies its function to the paths in the order of the list. When the
  paths before some path have been processed and the function raises on that path, the
  whole batch ends with that exception in the world left by that call: the paths after it
  are not touched, whatever they are.
\<close>

theorem do_all_in_order_aborting:
  assumes "do_all func before w = (Inr rs, w1)"
  shows "(func path w1 = (Inl e, w2) \<longrightarrow> do_all func (before @ path # rest) w = (Inl e, w2)) \<and>
         (func path w1 = (Inr r, w2) \<longrightarrow>
            do_all func (before @ [path]) w = (Inr (rs @ [r]), w2))"
  using assms by (simp add: do_all_append)

theorem do_all_in_order_aborting_witness:
  "do_all (\<lambda>path. publish_from_path (fs_os pages0) (Str ''/www'') path None None False)
     [Str ''/post/1/''] world0 = (Inr [()], world1) \<and>
   publish (fs_os pages0) (Str ''/www'') [Str ''/post/1/'', Str ''/boom/'', Str ''/later/''] world0 =
     (Inl (StaticGeneratorException (PageRaised (Str ''/boom/'') ''boom'')),
      world1\<lparr>calls := calls world1 @ [Handler (Str ''/boom/'')]\<rparr>)"
proof -
  let ?f = "\<lambda>path. publish_from_path (fs_os pages0) (Str ''/www'') path None None False"
  have h: "do_all ?f [Str ''/post/1/''] world0 = (Inr [()], world1)"
    by (simp add: pub1')
  from do_all_in_order_aborting [OF h, of "Str ''/boom/''"
        "StaticGeneratorException (PageRaised (Str ''/boom/'') ''boom'')"
        "world1\<lparr>calls := calls world1 @ [Handler (Str ''/boom/'')]\<rparr>" "[Str ''/later/'']"]
  have "do_all ?f ([Str ''/post/1/''] @ Str ''/boom/'' # [Str ''/later/'']) world0 =
          (Inl (StaticGeneratorException (PageRaised (Str ''/boom/'') ''boom'')),
           world1\<lparr>calls := calls world1 @ [Handler (Str ''/boom/'')]\<rparr>)"
    using pub_boom by blast
  then show ?thesis using h by (simp add: publish_def)
qed

section \<open>Deleting\<close>

lemma delete_from_path_result:
  assumes "get_query_string_from_path path = Inr (path', qs)"
    and "get_filename_from_path web_root path' qs is_ajax = Inr (Some (filename, directory))"
  shows "delete_from_path os web_root path is_ajax w =
           (if sys_exists os filename (sys w) then
              (if fst (sys_remove os filename (sys w)) then
                 (Inr (), snd (os_rmdir os directory
                    (snd (os_remove os filename (w\<lparr>calls := calls w @ [Exists filename]\<rparr>)))))
               else (Inl (StaticGeneratorException (CouldNotDeleteFile (Some filename))),
                     snd (os_remove os filename (w\<lparr>calls := calls w @ [Exists filename]\<rparr>))))
            else (Inr (), snd (os_rmdir os directory (w\<lparr>calls := calls w @ [Exists filename]\<rparr>))))"
  using assms
  by (auto simp: delete_from_path_def os_path_exists_def os_remove_def Let_def
           split: prod.splits bool.splits)

lemma sys_after_rmdir: "sys (snd (os_rmdir os d w)) = snd (sys_rmdir os d (sys w))"
  by (simp add: os_rmdir_def split: prod.splits)

lemma sys_after_remove: "sys (snd (os_remove os f w)) = snd (sys_remove os f (sys w))"
  by (simp add: os_remove_def split: prod.splits)

text \<open>
  C5. For a path with a location: when no file exists at the filename,
  \<open>delete_from_path\<close> returns normally; when the file exists and removing it raises, it
  raises \<open>StaticGeneratorException\<close> ('Could not delete file'); when the file is removed
  it returns normally. In each case the outcome of \<open>os.rmdir\<close> plays no part. On an
  operating system where a removed file is gone and \<open>rmdir\<close> creates no file, a second
  call after a first that returned normally returns normally too.
\<close>

theorem delete_is_idempotent:
  assumes split: "get_query_string_from_path path = Inr (path', qs)"
    and loc: "get_filename_from_path web_root path' qs is_ajax = Inr (Some (filename, directory))"
  shows "(\<not> sys_exists os filename (sys w) \<longrightarrow>
            fst (delete_from_path os web_root path is_ajax w) = Inr ()) \<and>
         (sys_exists os filename (sys w) \<and> \<not> fst (sys_remove os filename (sys w)) \<longrightarrow>
            fst (delete_from_path os web_root path is_ajax w) =
              Inl (StaticGeneratorException (CouldNotDeleteFile (Some filename)))) \<and>
         (sys_exists os filename (sys w) \<and> fst (sys_remove os filename (sys w)) \<longrightarrow>
            fst (delete_from_path os web_root path is_ajax w) = Inr ()) \<and>
         ((\<forall>s. fst (sys_remove os filename s) \<longrightarrow>
                 \<not> sys_exists os filename (snd (sys_remove os filename s))) \<and>
          (\<forall>s. \<not> sys_exists os filename s \<longrightarrow>
                 \<not> sys_exists os filename (snd (sys_rmdir os directory s))) \<and>
          fst (delete_from_path os web_root path is_ajax w) = Inr () \<longrightarrow>
            fst (delete_from_path os web_root path is_ajax
                   (snd (delete_from_path os web_root path is_ajax w))) = Inr ())"
proof -
  note r = delete_from_path_result [OF split loc]
  have a: "\<not> sys_exists os filename (sys w) \<longrightarrow>
             fst (delete_from_path os web_root path is_ajax w) = Inr ()"
    by (simp add: r)
  have b: "sys_exists os filename (sys w) \<and> \<not> fst (sys_remove os filename (sys w)) \<longrightarrow>
             fst (delete_from_path os web_root path is_ajax w) =
               Inl (StaticGeneratorException (CouldNotDeleteFile (Some filename)))"
    by (simp add: r)
  have c: "sys_exists os filename (sys w) \<and> fst (sys_remove os filename (sys w)) \<longrightarrow>
             fst (delete_from_path os web_root path is_ajax w) = Inr ()"
    by (simp add: r)
  have d: "fst (delete_from_path os web_root path is_ajax
                   (snd (delete_from_path os web_root path is_ajax w))) = Inr ()"
    if l1: "\<forall>s. fst (sys_remove os filename s) \<longrightarrow>
                 \<not> sys_exists os filename (snd (sys_remove os filename s))"
    and l2: "\<forall>s. \<not> sys_exists os filename s \<longrightarrow>
                 \<not> sys_exists os filename (snd (sys_rmdir os directory s))"
    and ok: "fst (delete_from_path os web_root path is_ajax w) = Inr ()"
  proof -
    let ?w' = "snd (delete_from_path os web_root path is_ajax w)"
    have "\<not> sys_exists os filename (sys ?w')"
    proof (cases "sys_exists os filename (sys w)")
      case False
      then show ?thesis using l2 by (simp add: r sys_after_rmdir)
    next
      case True
      with ok have rm: "fst (sys_remove os filename (sys w))"
        by (simp add: r split: if_splits)
      with True l1 l2 show ?thesis
        by (simp add: r sys_after_rmdir sys_after_remove)
    qed
    then show ?thesis
      using delete_from_path_result [OF split loc, of os ?w'] by simp
  qed
  from a b c d show ?thesis by blast
qed

theorem delete_is_idempotent_witness:
  "fst (delete_from_path (fs_os pages0) (Str ''/www'') (Str ''/post/1/'') False world1) = Inr () \<and>
   fst (delete_from_path (fs_os pages0) (Str ''/www'') (Str ''/post/1/'') False
          (snd (delete_from_path (fs_os pages0) (Str ''/www'') (Str ''/post/1/'') False world1))) =
     Inr () \<and>
   fst (delete_from_path (fs_os pages0) (Str ''/www'') (Str ''/post/1/'') False world0) = Inr ()"
proof -
  let ?fn = "''/www/post/1/index.html%3F''" and ?d = "''/www/post/1''"
  note t = delete_is_idempotent [OF split1 loc1, of "fs_os pages0"]
  have ex: "sys_exists (fs_os pages0) ?fn (sys world1)" "fst (sys_remove (fs_os pages0) ?fn (sys world1))"
    by (simp_all add: fs_eval world1_def)
  have nex: "\<not> sys_exists (fs_os pages0) ?fn (sys world0)"
    by (simp add: fs_eval)
  have l1: "\<forall>s. fst (sys_remove (fs_os pages0) ?fn s) \<longrightarrow>
               \<not> sys_exists (fs_os pages0) ?fn (snd (sys_remove (fs_os pages0) ?fn s))"
    by (auto simp: fs_os_def fs_exists_def fs_remove_def map_of_eq_None_iff)
  have l2: "\<forall>s. \<not> sys_exists (fs_os pages0) ?fn s \<longrightarrow>
               \<not> sys_exists (fs_os pages0) ?fn (snd (sys_rmdir (fs_os pages0) ?d s))"
    by (auto simp: fs_os_def fs_exists_def fs_rmdir_def)
  have a: "fst (delete_from_path (fs_os pages0) (Str ''/www'') (Str ''/post/1/'') False world1) = Inr ()"
    using t [of world1] ex by blast
  have b: "fst (delete_from_path (fs_os pages0) (Str ''/www'') (Str ''/post/1/'') False
          (snd (delete_from_path (fs_os pages0) (Str ''/www'') (Str ''/post/1/'') False world1))) =
     Inr ()"
    using t [of world1] l1 l2 a by blast
  have c: "fst (delete_from_path (fs_os pages0) (Str ''/www'') (Str ''/post/1/'') False world0) = Inr ()"
    using t [of world0] nex by blast
  show ?thesis by (rule conjI [OF a conjI [OF b c]])
qed

section \<open>The order of the calls of a publication\<close>

lemma replay_Nil [simp]: "replay os [] s = s"
  by (simp add: replay_def)

lemma replay_Cons [simp]: "replay os (c # cs) s = replay os cs (apply_call os c s)"
  by (simp add: replay_def)







lemma map_of_filter_other: "k \<noteq> p \<Longrightarrow> map_of (filter (\<lambda>e. fst e \<noteq> p) xs) k = map_of xs k"
  by (induction xs) auto

lemma map_of_filter_other2:
  "k \<noteq> p \<Longrightarrow> k \<noteq> q \<Longrightarrow> map_of (filter (\<lambda>e. fst e \<noteq> p \<and> fst e \<noteq> q) xs) k = map_of xs k"
  by (induction xs) auto








lemma fs_os_sel [simp]:
  "sys_mkstemp (fs_os pages) = fs_mkstemp"
  "sys_write (fs_os pages) = fs_write"
  "sys_close (fs_os pages) = fs_close"
  "sys_chmod (fs_os pages) = fs_chmod"
  "sys_rename (fs_os pages) = fs_rename"
  "sys_makedirs (fs_os pages) = fs_makedirs"
  "sys_exists (fs_os pages) = fs_exists"
  "sys_handler (fs_os pages) q s = (pages q, s)"
  by (simp_all add: fs_os_def)



lemma map_of_written:
  "tmp \<noteq> fn \<Longrightarrow>
   map_of ((tmp, c) # filter (\<lambda>e. fst e \<noteq> tmp) ((tmp, []) # xs)) fn = map_of xs fn"
  by (simp add: map_of_filter_other)






end
